theory Spec2Isabelle
  imports Main
begin

section \<open>Python primitives used by scrap.py\<close>

text \<open>
  The exceptions that the modelled code can raise. \<open>RequestException\<close> stands for
  every exception of \<^verbatim>\<open>requests.get\<close> (connection error, timeout, malformed URL);
  \<open>ValueError\<close> is raised by \<^verbatim>\<open>int(...)\<close> on a non-numeral and by
  \<^verbatim>\<open>ThreadPoolExecutor(max_workers=...)\<close> on a non-positive size;
  \<open>IndexError\<close> by list indexing; \<open>KeyError\<close> by \<^verbatim>\<open>tag["href"]\<close> on a tag
  without that attribute.
\<close>

datatype error = RequestException | ValueError | IndexError | KeyError

text \<open>\<^verbatim>\<open>xs[i]\<close> for a non-negative index: raises out of range.\<close>

definition index_py :: "'a list \<Rightarrow> nat \<Rightarrow> error + 'a" where
  "index_py xs i = (if i < length xs then Inr (xs ! i) else Inl IndexError)"

text \<open>
  \<^verbatim>\<open>s.split(c, 1)\<close> for a one-character separator: at most one split, at the first
  occurrence; a string without the separator yields the one-element list \<open>[s]\<close>.
\<close>

definition split1 :: "char \<Rightarrow> string \<Rightarrow> string list" where
  "split1 c s =
     (if c \<in> set s
      then [takeWhile (\<lambda>x. x \<noteq> c) s, tl (dropWhile (\<lambda>x. x \<noteq> c) s)]
      else [s])"

text \<open>
  Strings are lists of 8-bit characters, read as the code points below 256.
  \<^verbatim>\<open>str.isspace\<close> on one such character: tab, line feed, vertical tab, form
  feed, carriage return (9 to 13), the four separators 28 to 31, the space (32), the
  next-line control (133, U+0085) and the no-break space (160, U+00A0). The Unicode
  spaces from U+1680 on are not characters of the model.
\<close>

definition isspace :: "char \<Rightarrow> bool" where
  "isspace c =
     (let n = (of_char c :: nat)
      in (9 \<le> n \<and> n \<le> 13) \<or> (28 \<le> n \<and> n \<le> 32) \<or> n = 133 \<or> n = 160)"

text \<open>\<^verbatim>\<open>s.strip()\<close>: drops leading and trailing whitespace.\<close>

definition strip :: "string \<Rightarrow> string" where
  "strip s = rev (dropWhile isspace (rev (dropWhile isspace s)))"

text \<open>\<^verbatim>\<open>str(n)\<close> (also the \<^verbatim>\<open>{n}\<close> of an f-string) for a non-negative integer.\<close>

definition digit_char :: "nat \<Rightarrow> char" where
  "digit_char d = char_of (48 + d)"

fun str_nat :: "nat \<Rightarrow> string" where
  "str_nat n = (if n < 10 then [digit_char n] else str_nat (n div 10) @ [digit_char (n mod 10)])"

declare str_nat.simps [simp del]

text \<open>
  A decimal reader for strings of ASCII digits. Python's \<^verbatim>\<open>int(s)\<close> accepts more
  (signs, surrounding whitespace, underscores, other decimal digits); the model takes
  \<^verbatim>\<open>int\<close> as a parameter of the environment, and \<open>ascii_int\<close> is the instance
  used for concrete runs: it agrees with \<^verbatim>\<open>int\<close> on every string of ASCII digits.
\<close>

definition digit_val :: "char \<Rightarrow> nat option" where
  "digit_val c =
     (let n = (of_char c :: nat) in if 48 \<le> n \<and> n \<le> 57 then Some (n - 48) else None)"

fun dec_nat :: "nat \<Rightarrow> string \<Rightarrow> nat option" where
  "dec_nat acc [] = Some acc"
| "dec_nat acc (c # cs) =
     (case digit_val c of None \<Rightarrow> None | Some d \<Rightarrow> dec_nat (10 * acc + d) cs)"

definition ascii_int :: "string \<Rightarrow> int option" where
  "ascii_int s = (if s = [] then None else map_option int (dec_nat 0 s))"

text \<open>
  \<^verbatim>\<open>d[k] = v\<close> on a dictionary kept in insertion order: an existing key keeps its
  place and takes the new value, a new key goes to the end. The same function models
  \<^verbatim>\<open>INSERT OR REPLACE\<close> on a table with an integer primary key.
\<close>

fun upsert :: "'k \<Rightarrow> 'v \<Rightarrow> ('k \<times> 'v) list \<Rightarrow> ('k \<times> 'v) list" where
  "upsert k v [] = [(k, v)]"
| "upsert k v ((k', v') # kvs) =
     (if k' = k then (k, v) # kvs else (k', v') # upsert k v kvs)"

section \<open>The outside world\<close>

text \<open>
  What one \<^verbatim>\<open>requests.get\<close> does: it raises, or it returns a response with a
  status code and a body.
\<close>

datatype http_outcome = Raises | Response int string

text \<open>
  What BeautifulSoup's selectors return on a card (\<^verbatim>\<open>div.card-content\<close>): the
  trimmed text of the first \<^verbatim>\<open>h2.title\<close>, \<^verbatim>\<open>h3.company\<close> and
  \<^verbatim>\<open>p.location\<close> (None when there is no such node), the first \<^verbatim>\<open>time\<close> node
  with its \<^verbatim>\<open>datetime\<close> attribute (None when the attribute is missing) and its
  trimmed text, and the \<^verbatim>\<open>href\<close> attribute of every \<^verbatim>\<open>a.card-footer-item\<close>
  in document order (None for a link without \<^verbatim>\<open>href\<close>).
\<close>

record Time_node =
  datetime :: "string option"
  time_text :: string

record Card =
  h2_title :: "string option"
  h3_company :: "string option"
  p_location :: "string option"
  time_elem :: "Time_node option"
  footer_links :: "string option list"

text \<open>
  The environment of a run: the web (the outcome of a GET on each URL, fixed for the
  run), the HTML parser with the card selector (\<^verbatim>\<open>soup.select("div.card-content")\<close>,
  in document order), the parser with the content selector of a detail page
  (\<^verbatim>\<open>select_one("div.content p")\<close> and its trimmed text), and Python's
  \<^verbatim>\<open>int\<close> on strings (None for ValueError).
\<close>

record env =
  http_get :: "string \<Rightarrow> http_outcome"
  select_cards :: "string \<Rightarrow> Card list"
  select_content_p :: "string \<Rightarrow> string option"
  py_int :: "string \<Rightarrow> int option"

text \<open>
  What a run does besides returning: the GETs it issues, the lines it prints, and the
  calls of the Card Locator. The progress line of \<open>fetch_html\<close> is kept as its two
  variable parts: the thread tag (colour code and thread number, absent for an empty
  thread number) and the page (\<^verbatim>\<open>url[19:]\<close>); \<open>Listing_unavailable\<close> is the line
  \<^verbatim>\<open>Impossible de recuperer la page.\<close>
\<close>

datatype notice = Page_fetched "(int \<times> string) option" string | Listing_unavailable

datatype event = Get string | Print notice | Locate string

section \<open>Page Fetcher\<close>

definition fetch_html :: "env \<Rightarrow> string \<Rightarrow> string option \<Rightarrow> (error + string) \<times> event list" where
  "fetch_html e url th_name =
     (case http_get e url of
        Raises \<Rightarrow> (Inl RequestException, [Get url])
      | Response status_code body \<Rightarrow>
          if status_code = 200 then
            (let thrd = (case th_name of
                           None \<Rightarrow> []
                         | Some n \<Rightarrow>
                             if n \<noteq> [] \<and> CHR ''_'' \<in> set n
                             then split1 (CHR ''_'') n ! 1 else [])
             in case (if thrd \<noteq> [] then py_int e thrd else Some 0) of
                  None \<Rightarrow> (Inl ValueError, [Get url])
                | Some v \<Rightarrow>
                    (let bg_code = 100 + v mod 7;
                         m_th = (if thrd \<noteq> [] then Some (bg_code, thrd) else None)
                     in (Inr body, [Get url, Print (Page_fetched m_th (drop 19 url))])))
          else (Inr [], [Get url]))"

text \<open>
  The thread labels on which the progress line can be built: no label, an empty one,
  one without underscore, or one whose part after the first underscore is empty or
  accepted by \<^verbatim>\<open>int\<close>.
\<close>

definition label_ok :: "env \<Rightarrow> string option \<Rightarrow> bool" where
  "label_ok e th_name =
     (case th_name of
        None \<Rightarrow> True
      | Some n \<Rightarrow>
          CHR ''_'' \<notin> set n \<or> tl (dropWhile (\<lambda>x. x \<noteq> CHR ''_'') n) = [] \<or>
          py_int e (tl (dropWhile (\<lambda>x. x \<noteq> CHR ''_'') n)) \<noteq> None)"

section \<open>Record Extractor\<close>

record Location =
  ville :: string
  region :: string

record Record =
  title :: string
  company :: string
  location :: Location
  date :: string
  url :: string
  content :: string

text \<open>
  \<open>extract_info\<close>, in the order in which the source evaluates: the second footer
  link's \<^verbatim>\<open>href\<close> (KeyError when that link has no such attribute), the company,
  the location text and its two parts (IndexError when the split has no second part),
  the date, the url, and the detail fetch. The thread name is what
  \<^verbatim>\<open>threading.current_thread().name\<close> returns in the calling thread; the pause
  of \<^verbatim>\<open>time.sleep\<close> is not modelled. The second component lists what the call
  did before it returned or raised.
\<close>

definition extract_info ::
  "env \<Rightarrow> string \<Rightarrow> nat \<Rightarrow> string \<Rightarrow> Card \<Rightarrow> (error + nat \<times> Record) \<times> event list" where
  "extract_info e thread_name idx ttl crd =
     (let links = footer_links crd in
      case (if length links > 1
            then (case links ! 1 of None \<Rightarrow> Inl KeyError | Some h \<Rightarrow> Inr (Some h))
            else Inr None) of
        Inl err \<Rightarrow> (Inl err, [])
      | Inr apply_href \<Rightarrow>
          (let company_v = (case h3_company crd of Some t \<Rightarrow> t | None \<Rightarrow> ''NC'');
               str_loc = (case p_location crd of Some t \<Rightarrow> t | None \<Rightarrow> ''NC,--'')
           in case index_py (split1 (CHR '','') str_loc) 0 of
                Inl err \<Rightarrow> (Inl err, [])
              | Inr ville_v \<Rightarrow>
                  (case index_py (split1 (CHR '','') str_loc) 1 of
                     Inl err \<Rightarrow> (Inl err, [])
                   | Inr region_v \<Rightarrow>
                       (let location_v = \<lparr>ville = ville_v, region = region_v\<rparr>;
                            date_v =
                              (case time_elem crd of
                                 None \<Rightarrow> ''NC''
                               | Some tm \<Rightarrow>
                                   (case datetime tm of
                                      None \<Rightarrow> time_text tm
                                    | Some d \<Rightarrow> if d \<noteq> [] then d else time_text tm));
                            url_v =
                              (case apply_href of
                                 None \<Rightarrow> ''NC''
                               | Some h \<Rightarrow> if h \<noteq> [] then h else ''NC'')
                        in if url_v \<noteq> ''NC'' then
                             (case fetch_html e url_v (Some thread_name) of
                                (Inl err, evs) \<Rightarrow> (Inl err, evs)
                              | (Inr html_detail, evs) \<Rightarrow>
                                  (let content_v =
                                         (if html_detail \<noteq> [] then
                                            (case select_content_p e html_detail of
                                               None \<Rightarrow> []
                                             | Some p \<Rightarrow> p)
                                          else [])
                                   in (Inr (idx, \<lparr>title = ttl, company = company_v,
                                                   location = location_v, date = date_v,
                                                   url = url_v, content = content_v\<rparr>), evs)))
                           else (Inr (idx, \<lparr>title = ttl, company = company_v,
                                           location = location_v, date = date_v,
                                           url = url_v, content = []\<rparr>), [])))))"

text \<open>The location text of the card, when there is one, has a comma.\<close>

definition loc_ok :: "Card \<Rightarrow> bool" where
  "loc_ok crd = (case p_location crd of None \<Rightarrow> True | Some s \<Rightarrow> CHR '','' \<in> set s)"

text \<open>Cards for concrete runs.\<close>

definition card_full :: Card where
  "card_full = \<lparr>h2_title = Some ''Senior Python Developer'',
     h3_company = Some ''Payne, Roberts and Davis'',
     p_location = Some ''Stewartbury, AA'',
     time_elem = Some \<lparr>datetime = Some ''2021-04-08'', time_text = ''2021-04-08''\<rparr>,
     footer_links = [Some ''https://www.realpython.com'',
                     Some ''https://realpython.github.io/fake-jobs/jobs/a.html'']\<rparr>"

definition card_bare :: Card where
  "card_bare = \<lparr>h2_title = None, h3_company = None, p_location = None, time_elem = None,
     footer_links = [Some ''https://www.realpython.com'']\<rparr>"

definition card_remote :: Card where
  "card_remote = \<lparr>h2_title = Some ''Energy engineer'', h3_company = Some ''Vasquez-Davidson'',
     p_location = Some ''Remote'', time_elem = None, footer_links = []\<rparr>"

definition card_empty_href :: Card where
  "card_empty_href = \<lparr>h2_title = Some ''Legal executive'', h3_company = None,
     p_location = Some ''Port Ericaburgh, AA'', time_elem = None,
     footer_links = [Some ''https://www.realpython.com'', Some []]\<rparr>"

definition card_empty_datetime :: Card where
  "card_empty_datetime = \<lparr>h2_title = Some ''Fitness centre manager'', h3_company = None,
     p_location = None,
     time_elem = Some \<lparr>datetime = Some [], time_text = ''8 April 2021''\<rparr>,
     footer_links = []\<rparr>"

definition card_text_date :: Card where
  "card_text_date = \<lparr>h2_title = Some ''Product manager'', h3_company = None,
     p_location = None,
     time_elem = Some \<lparr>datetime = None, time_text = ''8 April 2021''\<rparr>,
     footer_links = []\<rparr>"

section \<open>Card Locator and Scrape Orchestrator\<close>

definition URL :: string where
  "URL = ''https://realpython.github.io/fake-jobs/''"

text \<open>
  \<open>parse_cards\<close>: the cards in document order, each with its index and its title
  (the text of the heading, or \<open>Job\<close> and the index). The dictionary is kept as the
  list of its items, which are in index order.
\<close>

definition parse_cards :: "env \<Rightarrow> string \<Rightarrow> (nat \<times> string \<times> Card) list" where
  "parse_cards e html =
     map (\<lambda>(idx, crd).
            (idx, (case h2_title crd of Some t \<Rightarrow> t | None \<Rightarrow> ''Job '' @ str_nat idx), crd))
         (enumerate 0 (select_cards e html))"

text \<open>
  What the thread pool leaves open, as a parameter of the run: the number of the pool
  in the process, the worker thread that runs each task (by the task's index), and
  the order in which the tasks complete (a list of positions in the submission
  order). A worker thread of pool \<open>p\<close> with number \<open>k\<close> has the name
  \<^verbatim>\<open>ThreadPoolExecutor-p_k\<close>.
\<close>

record Sched =
  pool_no :: nat
  worker_of :: "nat \<Rightarrow> nat"
  completion :: "nat list"

definition thread_name :: "nat \<Rightarrow> nat \<Rightarrow> string" where
  "thread_name p k = ''ThreadPoolExecutor-'' @ str_nat p @ ''_'' @ str_nat k"

text \<open>
  The loop over \<^verbatim>\<open>as_completed(futures)\<close>: \<^verbatim>\<open>future.result()\<close> returns the pair of
  the task or re-raises its exception, which ends the run; a pair is stored under
  its index.
\<close>

fun collect :: "(error + nat \<times> Record) list \<Rightarrow> (nat \<times> Record) list \<Rightarrow> error + (nat \<times> Record) list" where
  "collect [] results = Inr results"
| "collect (Inl err # fs) results = Inl err"
| "collect (Inr (idx, data) # fs) results = collect fs (upsert idx data results)"

text \<open>
  A run of \<open>scrape_jobs\<close>: what it returns or raises, what the main thread did, and,
  for every task submitted to the pool, its index and what the task did (all
  submitted tasks run to their end, also when the run raises: leaving the
  \<^verbatim>\<open>with\<close> block waits for them). Nothing is said about how the actions of
  different tasks interleave.
\<close>

record Run =
  returned :: "error + (nat \<times> Record) list"
  events :: "event list"
  tasks :: "(nat \<times> event list) list"

definition scrape_jobs :: "env \<Rightarrow> int \<Rightarrow> Sched \<Rightarrow> Run" where
  "scrape_jobs e workers s =
     (case fetch_html e URL (Some []) of
        (Inl err, evs) \<Rightarrow> \<lparr>returned = Inl err, events = evs, tasks = []\<rparr>
      | (Inr html, evs) \<Rightarrow>
          if html = [] then
            \<lparr>returned = Inr [], events = evs @ [Print Listing_unavailable], tasks = []\<rparr>
          else
            (let cards = parse_cards e html;
                 evs' = evs @ [Locate html]
             in if workers \<le> 0 then \<lparr>returned = Inl ValueError, events = evs', tasks = []\<rparr>
                else
                  (let outcomes =
                         map (\<lambda>(idx, ttl, crd).
                                extract_info e (thread_name (pool_no s) (worker_of s idx)) idx ttl crd)
                             cards;
                       done = map (\<lambda>j. fst (outcomes ! j)) (completion s)
                   in \<lparr>returned = collect done [], events = evs',
                       tasks = map (\<lambda>((idx, ttl, crd), out). (idx, snd out)) (zip cards outcomes)\<rparr>)))"

text \<open>
  The completion order of a schedule for \<open>n\<close> tasks: every position once.
\<close>

definition completes :: "Sched \<Rightarrow> nat \<Rightarrow> bool" where
  "completes s n = (distinct (completion s) \<and> set (completion s) = {0..<n})"

text \<open>\<^verbatim>\<open>int(str(k)) == k\<close> for every non-negative integer.\<close>

definition int_reads_str :: "env \<Rightarrow> bool" where
  "int_reads_str e = (\<forall>k. py_int e (str_nat k) = Some (int k))"

text \<open>
  The url that \<open>extract_info\<close> fetches for a card, if any, and the conditions on a
  card under which its task does not raise: the location text has a comma, the
  second footer link has an \<^verbatim>\<open>href\<close>, and the detail fetch answers 200.
\<close>

definition detail_url :: "Card \<Rightarrow> string option" where
  "detail_url crd =
     (if 1 < length (footer_links crd) then
        (case footer_links crd ! 1 of
           None \<Rightarrow> None
         | Some h \<Rightarrow> if h \<noteq> [] \<and> h \<noteq> ''NC'' then Some h else None)
      else None)"

definition href_ok :: "Card \<Rightarrow> bool" where
  "href_ok crd = (length (footer_links crd) \<le> 1 \<or> footer_links crd ! 1 \<noteq> None)"

definition detail_fetch_ok :: "env \<Rightarrow> Card \<Rightarrow> bool" where
  "detail_fetch_ok e crd =
     (case detail_url crd of
        None \<Rightarrow> True
      | Some u \<Rightarrow> (case http_get e u of Raises \<Rightarrow> False | Response st body \<Rightarrow> st = 200))"

text \<open>The title that \<open>parse_cards\<close> gives the card at an index.\<close>

definition title_at :: "nat \<Rightarrow> Card \<Rightarrow> string" where
  "title_at idx crd = (case h2_title crd of Some t \<Rightarrow> t | None \<Rightarrow> ''Job '' @ str_nat idx)"

text \<open>
  The content that the listing fetch of a run returns (empty when it raises), and the
  number of cards that the Card Locator finds in it.
\<close>

definition listing :: "env \<Rightarrow> string" where
  "listing e = (case fst (fetch_html e URL (Some [])) of Inl err \<Rightarrow> [] | Inr html \<Rightarrow> html)"

definition card_count :: "env \<Rightarrow> nat" where
  "card_count e = length (select_cards e (listing e))"

text \<open>The result of the task at a position of the submission order.\<close>

definition task_result :: "env \<Rightarrow> Sched \<Rightarrow> Card list \<Rightarrow> nat \<Rightarrow> error + nat \<times> Record" where
  "task_result e s cs j =
     fst (extract_info e (thread_name (pool_no s) (worker_of s j)) j (title_at j (cs ! j)) (cs ! j))"

section \<open>Persistence Layer: the normalized sink\<close>

text \<open>
  The three tables of \<open>save_sqlite\<close>. \<open>titles\<close> and \<open>regions\<close> hold (id, value)
  rows in insertion order, each with the counter that \<^verbatim>\<open>AUTOINCREMENT\<close> keeps for
  the table; \<open>jobs\<close> holds one row per id. A database file that does not exist yet
  is \<open>empty_db\<close>: the three \<^verbatim>\<open>CREATE TABLE IF NOT EXISTS\<close> statements create the
  tables empty and leave existing tables as they are.
\<close>

record Job_row =
  title_id :: nat
  row_company :: string
  row_ville :: string
  region_id :: "nat option"
  row_date :: string
  row_url :: string
  row_content :: string

record Db =
  titles :: "(nat \<times> string) list"
  titles_seq :: nat
  regions :: "(nat \<times> string) list"
  regions_seq :: nat
  jobs :: "(nat \<times> Job_row) list"

definition empty_db :: Db where
  "empty_db = \<lparr>titles = [], titles_seq = 0, regions = [], regions_seq = 0, jobs = []\<rparr>"

text \<open>
  \<^verbatim>\<open>SELECT id FROM t WHERE value = ?\<close> followed by \<^verbatim>\<open>fetchone()\<close>: the id of
  the first row with that value, if any (the comparison is exact, byte by byte).
\<close>

definition select_id :: "string \<Rightarrow> (nat \<times> string) list \<Rightarrow> nat option" where
  "select_id v rows = map_option fst (find (\<lambda>row. snd row = v) rows)"

text \<open>
  The id that \<^verbatim>\<open>INSERT\<close> gives a new row of an \<^verbatim>\<open>AUTOINCREMENT\<close> table
  (\<^verbatim>\<open>cur.lastrowid\<close>): one more than the largest id the table has ever held.
\<close>

definition autoincrement :: "nat \<Rightarrow> (nat \<times> string) list \<Rightarrow> nat" where
  "autoincrement seq rows = Suc (fold max (map fst rows) seq)"

text \<open>
  The body of the loop of \<open>save_sqlite\<close> for one entry of the ResultSet: title
  lookup-or-insert on the trimmed title, region lookup-or-insert when the region is
  not empty, then \<^verbatim>\<open>INSERT OR REPLACE\<close> of the job row under the entry's key. The
  entries are the Records that \<open>extract_info\<close> builds, which carry all six keys, so
  the defaults of \<^verbatim>\<open>item.get\<close> are never taken.
\<close>

definition save_item :: "nat \<Rightarrow> Record \<Rightarrow> Db \<Rightarrow> Db" where
  "save_item idx item db =
     (let title_v = strip (title item);
          company_v = company item;
          ville_v = ville (location item);
          region_v = region (location item);
          date_v = date item;
          url_v = url item;
          content_v = content item;
          (title_id_v, db1) =
            (case select_id title_v (titles db) of
               Some i \<Rightarrow> (i, db)
             | None \<Rightarrow>
                 (let i = autoincrement (titles_seq db) (titles db)
                  in (i, db\<lparr>titles := titles db @ [(i, title_v)], titles_seq := i\<rparr>)));
          (region_id_v, db2) =
            (if region_v \<noteq> [] then
               (case select_id region_v (regions db1) of
                  Some i \<Rightarrow> (Some i, db1)
                | None \<Rightarrow>
                    (let i = autoincrement (regions_seq db1) (regions db1)
                     in (Some i, db1\<lparr>regions := regions db1 @ [(i, region_v)], regions_seq := i\<rparr>)))
             else (None, db1))
      in db2\<lparr>jobs := upsert idx
                 \<lparr>title_id = title_id_v, row_company = company_v, row_ville = ville_v,
                  region_id = region_id_v, row_date = date_v, row_url = url_v,
                  row_content = content_v\<rparr> (jobs db2)\<rparr>)"

text \<open>
  \<open>save_sqlite\<close> on a ResultSet, given as the list of its items in the iteration order
  of the dictionary, and the database found at the path. The result is the database
  after the commit; the line printed at the end and the creation of the directory
  are not modelled.
\<close>

fun save_sqlite :: "(nat \<times> Record) list \<Rightarrow> Db \<Rightarrow> Db" where
  "save_sqlite [] db = db"
| "save_sqlite ((idx, item) # rest) db = save_sqlite rest (save_item idx item db)"

text \<open>The row that a run leaves for a key of the ResultSet.\<close>

definition row_of :: "Record \<Rightarrow> Db \<Rightarrow> Job_row" where
  "row_of item db =
     \<lparr>title_id = the (select_id (strip (title item)) (titles db)),
      row_company = company item, row_ville = ville (location item),
      region_id = (if region (location item) = [] then None
                   else select_id (region (location item)) (regions db)),
      row_date = date item, row_url = url item, row_content = content item\<rparr>"

text \<open>A ResultSet for concrete runs.\<close>

definition rec_a :: Record where
  "rec_a = \<lparr>title = ''Energy engineer'', company = ''Vasquez-Davidson'',
     location = \<lparr>ville = ''Christopherville'', region = '' AA''\<rparr>,
     date = ''2021-04-08'', url = ''NC'', content = []\<rparr>"

definition rec_b :: Record where
  "rec_b = \<lparr>title = CHR 0xA0 # '' Energy engineer '' @ [CHR 0x85],
     company = '' Wilson Group '',
     location = \<lparr>ville = ''Port Ericaburgh'', region = '' AA''\<rparr>,
     date = ''2021-04-08'', url = ''NC'', content = []\<rparr>"

definition rec_c :: Record where
  "rec_c = \<lparr>title = ''Energy engineer'', company = ''NC'',
     location = \<lparr>ville = ''Remote'', region = []\<rparr>,
     date = ''NC'', url = ''NC'', content = []\<rparr>"

definition data0 :: "(nat \<times> Record) list" where
  "data0 = [(0, rec_a), (1, rec_b), (2, rec_c)]"


text \<open>
  A small web for concrete runs: the listing and one detail page answer 200, one
  page answers 404, the rest fail. The listing has three cards.
\<close>

definition web0 :: "string \<Rightarrow> http_outcome" where
  "web0 u =
     (if u = ''https://realpython.github.io/fake-jobs/'' then Response 200 ''<listing>''
      else if u = ''https://realpython.github.io/fake-jobs/jobs/a.html'' then Response 200 ''<detail a>''
      else if u = ''https://realpython.github.io/fake-jobs/gone'' then Response 404 ''not found''
      else Raises)"

definition env0 :: env where
  "env0 = \<lparr>http_get = web0,
           select_cards = (\<lambda>d. if d = ''<listing>'' then [card_full, card_bare, card_text_date] else []),
           select_content_p = (\<lambda>d. if d = ''<detail a>'' then Some ''Prepare manuscript.'' else None),
           py_int = ascii_int\<rparr>"

text \<open>The same web with a listing of one card, whose location text has no comma.\<close>

definition env_remote :: env where
  "env_remote = env0\<lparr>select_cards := (\<lambda>d. if d = ''<listing>'' then [card_remote] else [])\<rparr>"

text \<open>A web on which every page answers 503 with an empty body.\<close>

definition env_down :: env where
  "env_down = env0\<lparr>http_get := (\<lambda>u. Response 503 [])\<rparr>"

text \<open>Two schedules for three tasks: one worker, and eight workers completing in another order.\<close>

definition sched1 :: Sched where
  "sched1 = \<lparr>pool_no = 0, worker_of = (\<lambda>i. 0), completion = [0, 1, 2]\<rparr>"

definition sched8 :: Sched where
  "sched8 = \<lparr>pool_no = 0, worker_of = (\<lambda>i. i mod 8), completion = [2, 0, 1]\<rparr>"

text \<open>The schedule of a run with one task.\<close>

definition sched_one :: Sched where
  "sched_one = \<lparr>pool_no = 0, worker_of = (\<lambda>i. 0), completion = [0]\<rparr>"

section \<open>Page Fetcher: results\<close>

lemma fetch_html_raises:
  "http_get e u = Raises \<Longrightarrow> fetch_html e u th = (Inl RequestException, [Get u])"
  by (simp add: fetch_html_def)

lemma fetch_html_not_200:
  "http_get e u = Response st body \<Longrightarrow> st \<noteq> 200 \<Longrightarrow> fetch_html e u th = (Inr [], [Get u])"
  by (simp add: fetch_html_def)

lemma fetch_html_200:
  assumes "http_get e u = Response 200 body" and "label_ok e th"
  shows "fst (fetch_html e u th) = Inr body"
  using assms
  by (auto simp: fetch_html_def label_ok_def split1_def Let_def split: option.splits)

text \<open>
  C2 (as the code has it). On status 200 \<open>fetch_html\<close> returns the body, on any other
  status it returns the empty string, and neither raises (for a thread label on which
  the progress line can be built, as every label of the program is). A transport
  failure is not absorbed: the exception of the GET leaves \<open>fetch_html\<close>.
\<close>

theorem fetch_html_outcomes:
  "(http_get e u = Response 200 body \<and> label_ok e th \<longrightarrow> fst (fetch_html e u th) = Inr body) \<and>
   (http_get e u = Response st body \<and> st \<noteq> 200 \<longrightarrow> fst (fetch_html e u th) = Inr []) \<and>
   (http_get e u = Raises \<longrightarrow> fst (fetch_html e u th) = Inl RequestException)"
  by (simp add: fetch_html_raises fetch_html_not_200 fetch_html_200)

theorem fetch_html_outcomes_witness:
  "fst (fetch_html env0 ''https://realpython.github.io/fake-jobs/jobs/a.html''
         (Some ''ThreadPoolExecutor-0_3'')) = Inr ''<detail a>'' \<and>
   fst (fetch_html env0 ''https://realpython.github.io/fake-jobs/gone'' (Some [])) = Inr [] \<and>
   fst (fetch_html env0 ''https://example.invalid/'' None) = Inl RequestException"
proof -
  have a: "http_get env0 ''https://realpython.github.io/fake-jobs/jobs/a.html'' = Response 200 ''<detail a>''"
    by (simp add: env0_def web0_def)
  have l: "label_ok env0 (Some ''ThreadPoolExecutor-0_3'')"
    by (simp add: label_ok_def env0_def ascii_int_def digit_val_def)
  have b: "http_get env0 ''https://realpython.github.io/fake-jobs/gone'' = Response 404 ''not found''"
    by (simp add: env0_def web0_def)
  have c: "http_get env0 ''https://example.invalid/'' = Raises"
    by (simp add: env0_def web0_def)
  show ?thesis
    using fetch_html_outcomes [of env0 "''https://realpython.github.io/fake-jobs/jobs/a.html''"
        "''<detail a>''" "Some ''ThreadPoolExecutor-0_3''" 200]
      fetch_html_outcomes [of env0 "''https://realpython.github.io/fake-jobs/gone''"
        "''not found''" "Some []" 404]
      fetch_html_outcomes [of env0 "''https://example.invalid/''" "[]" None 0]
      a l b c
    by simp
qed

text \<open>
  C2 as stated fails: when the GET raises, \<open>fetch_html\<close> raises too instead of
  returning the empty string.
\<close>

theorem fetch_html_transport_counterexample:
  "http_get env0 ''https://example.invalid/'' = Raises \<and>
   fst (fetch_html env0 ''https://example.invalid/'' (Some [])) \<noteq> Inr []"
  by (simp add: fetch_html_def env0_def web0_def)

section \<open>Record Extractor: results\<close>

lemma split1_no_sep: "c \<notin> set s \<Longrightarrow> split1 c s = [s]"
  by (simp add: split1_def)

lemma split1_sep:
  "c \<in> set s \<Longrightarrow> split1 c s = [takeWhile (\<lambda>x. x \<noteq> c) s, tl (dropWhile (\<lambda>x. x \<noteq> c) s)]"
  by (simp add: split1_def)

lemma extract_info_no_comma:
  assumes "p_location crd = Some s" and "CHR '','' \<notin> set s"
    and "length (footer_links crd) \<le> 1 \<or> footer_links crd ! 1 \<noteq> None"
  shows "extract_info e th idx ttl crd = (Inl IndexError, [])"
  using assms
  by (auto simp: extract_info_def index_py_def split1_no_sep Let_def split: option.splits)

text \<open>
  C3 (the code at the failing input). The card has a location node whose text,
  \<open>Remote\<close>, has no comma: \<open>extract_info\<close> raises IndexError at
  \<^verbatim>\<open>str_loc.split(",", 1)[1]\<close> and produces no Record.
\<close>

theorem extract_info_no_comma_raises:
  "extract_info env0 ''ThreadPoolExecutor-0_0'' 0 ''Energy engineer'' card_remote
     = (Inl IndexError, [])"
  by (rule extract_info_no_comma [where s = "''Remote''"]) (simp_all add: card_remote_def)

text \<open>
  The sibling path: without a location node the sentinel \<open>NC,--\<close> is split, and the
  region is \<open>--\<close>.
\<close>

lemma extract_info_no_location_node:
  assumes "p_location crd = None" and "fst (extract_info e th idx ttl crd) = Inr (i, r)"
  shows "location r = \<lparr>ville = ''NC'', region = ''--''\<rparr>"
  using assms
  by (auto simp: extract_info_def index_py_def split1_def Let_def
      split: option.splits if_splits prod.splits sum.splits)

lemma extract_info_few_links:
  assumes "length (footer_links crd) < 2" and "loc_ok crd"
  shows "\<exists>r. extract_info e th idx ttl crd = (Inr (idx, r), []) \<and> url r = ''NC'' \<and> content r = []"
  using assms
  by (auto simp: extract_info_def loc_ok_def index_py_def split1_def Let_def split: option.splits)

lemma extract_info_second_link:
  assumes "1 < length (footer_links crd)" and "footer_links crd ! 1 = Some h" and "h \<noteq> []"
    and "fst (extract_info e th idx ttl crd) = Inr (i, r)"
  shows "url r = h"
  using assms
  by (auto simp: extract_info_def index_py_def Let_def
      split: option.splits if_splits prod.splits sum.splits)

text \<open>
  C4 (as the code has it). A card with fewer than two footer links, whose location
  text splits, yields a Record with url \<open>NC\<close> and empty content, and the call issues
  no GET and prints nothing. For a card with at least two footer links whose second
  link has a non-empty \<^verbatim>\<open>href\<close>, the url of the Record is that \<^verbatim>\<open>href\<close>.
\<close>

theorem extract_info_url:
  "(length (footer_links crd) < 2 \<and> loc_ok crd \<longrightarrow>
      (\<exists>r. extract_info e th idx ttl crd = (Inr (idx, r), []) \<and> url r = ''NC'' \<and> content r = [])) \<and>
   (1 < length (footer_links crd) \<and> footer_links crd ! 1 = Some h \<and> h \<noteq> [] \<and>
      fst (extract_info e th idx ttl crd) = Inr (i, r') \<longrightarrow> url r' = h)"
  using extract_info_few_links [of crd e th idx ttl]
    extract_info_second_link [of crd h e th idx ttl i r']
  by blast

lemma extract_info_card_full:
  "extract_info env0 ''ThreadPoolExecutor-0_0'' 0 ''Senior Python Developer'' card_full =
     (Inr (0, \<lparr>title = ''Senior Python Developer'', company = ''Payne, Roberts and Davis'',
               location = \<lparr>ville = ''Stewartbury'', region = '' AA''\<rparr>,
               date = ''2021-04-08'',
               url = ''https://realpython.github.io/fake-jobs/jobs/a.html'',
               content = ''Prepare manuscript.''\<rparr>),
      [Get ''https://realpython.github.io/fake-jobs/jobs/a.html'',
       Print (Page_fetched (Some (100, ''0'')) ''github.io/fake-jobs/jobs/a.html'')])"
  by (simp add: extract_info_def card_full_def index_py_def split1_def fetch_html_def
      env0_def web0_def ascii_int_def digit_val_def Let_def)

theorem extract_info_url_witness:
  "length (footer_links card_bare) < 2 \<and> loc_ok card_bare \<and>
   (\<exists>r. extract_info env0 ''ThreadPoolExecutor-0_0'' 7 ''Job 7'' card_bare = (Inr (7, r), []) \<and>
        url r = ''NC'' \<and> content r = []) \<and>
   1 < length (footer_links card_full) \<and>
   footer_links card_full ! 1 = Some ''https://realpython.github.io/fake-jobs/jobs/a.html'' \<and>
   url \<lparr>title = ''Senior Python Developer'', company = ''Payne, Roberts and Davis'',
        location = \<lparr>ville = ''Stewartbury'', region = '' AA''\<rparr>,
        date = ''2021-04-08'',
        url = ''https://realpython.github.io/fake-jobs/jobs/a.html'',
        content = ''Prepare manuscript.''\<rparr> = ''https://realpython.github.io/fake-jobs/jobs/a.html''"
proof -
  have a: "length (footer_links card_bare) < 2 \<and> loc_ok card_bare"
    by (simp add: card_bare_def loc_ok_def)
  have b: "1 < length (footer_links card_full) \<and>
           footer_links card_full ! 1 = Some ''https://realpython.github.io/fake-jobs/jobs/a.html''"
    by (simp add: card_full_def)
  have c: "fst (extract_info env0 ''ThreadPoolExecutor-0_0'' 0 ''Senior Python Developer'' card_full) =
     Inr (0, \<lparr>title = ''Senior Python Developer'', company = ''Payne, Roberts and Davis'',
               location = \<lparr>ville = ''Stewartbury'', region = '' AA''\<rparr>,
               date = ''2021-04-08'',
               url = ''https://realpython.github.io/fake-jobs/jobs/a.html'',
               content = ''Prepare manuscript.''\<rparr>)"
    by (simp add: extract_info_card_full)
  have d: "''https://realpython.github.io/fake-jobs/jobs/a.html'' \<noteq> []"
    by simp
  from a extract_info_url [where crd = card_bare and e = env0
      and th = "''ThreadPoolExecutor-0_0''" and idx = 7 and ttl = "''Job 7''"]
  have first: "\<exists>r. extract_info env0 ''ThreadPoolExecutor-0_0'' 7 ''Job 7'' card_bare = (Inr (7, r), []) \<and>
        url r = ''NC'' \<and> content r = []"
    by blast
  from b c d extract_info_url [where crd = card_full and e = env0
      and h = "''https://realpython.github.io/fake-jobs/jobs/a.html''"
      and th = "''ThreadPoolExecutor-0_0''" and idx = 0 and ttl = "''Senior Python Developer''"
      and i = 0]
  have second: "url \<lparr>title = ''Senior Python Developer'', company = ''Payne, Roberts and Davis'',
        location = \<lparr>ville = ''Stewartbury'', region = '' AA''\<rparr>,
        date = ''2021-04-08'',
        url = ''https://realpython.github.io/fake-jobs/jobs/a.html'',
        content = ''Prepare manuscript.''\<rparr> = ''https://realpython.github.io/fake-jobs/jobs/a.html''"
    by blast
  from a b first second show ?thesis by blast
qed

text \<open>
  C4 as stated fails: the card has two footer links, the second with an empty
  \<^verbatim>\<open>href\<close>; the url of its Record is \<open>NC\<close>, not the \<^verbatim>\<open>href\<close> of the second link.
\<close>

theorem extract_info_empty_href_counterexample:
  "length (footer_links card_empty_href) = 2 \<and> footer_links card_empty_href ! 1 = Some [] \<and>
   extract_info env0 ''ThreadPoolExecutor-0_0'' 0 ''Legal executive'' card_empty_href =
     (Inr (0, \<lparr>title = ''Legal executive'', company = ''NC'',
               location = \<lparr>ville = ''Port Ericaburgh'', region = '' AA''\<rparr>,
               date = ''NC'', url = ''NC'', content = []\<rparr>), [])"
  by (simp add: extract_info_def card_empty_href_def index_py_def split1_def Let_def)

lemma extract_info_date_cases:
  assumes "fst (extract_info e th idx ttl crd) = Inr (i, r)"
  shows "date r =
     (case time_elem crd of
        None \<Rightarrow> ''NC''
      | Some tm \<Rightarrow>
          (case datetime tm of
             None \<Rightarrow> time_text tm
           | Some d \<Rightarrow> if d \<noteq> [] then d else time_text tm))"
  using assms
  by (auto simp: extract_info_def index_py_def Let_def
      split: option.splits if_splits prod.splits sum.splits)

text \<open>
  C5 (as the code has it). In the Record that \<open>extract_info\<close> returns, the date is the
  \<^verbatim>\<open>datetime\<close> attribute of the time node when the node is present and the attribute
  is present and non-empty; otherwise, when the node is present (attribute missing or
  empty), its trimmed text; otherwise \<open>NC\<close>.
\<close>

theorem extract_info_date:
  assumes "fst (extract_info e th idx ttl crd) = Inr (i, r)"
  shows "(\<forall>tm d. time_elem crd = Some tm \<and> datetime tm = Some d \<and> d \<noteq> [] \<longrightarrow> date r = d) \<and>
         (\<forall>tm. time_elem crd = Some tm \<and> (datetime tm = None \<or> datetime tm = Some []) \<longrightarrow>
                 date r = time_text tm) \<and>
         (time_elem crd = None \<longrightarrow> date r = ''NC'')"
  using extract_info_date_cases [OF assms] by auto

lemma extract_info_card_text_date:
  "extract_info env0 ''ThreadPoolExecutor-0_1'' 1 ''Product manager'' card_text_date =
     (Inr (1, \<lparr>title = ''Product manager'', company = ''NC'',
               location = \<lparr>ville = ''NC'', region = ''--''\<rparr>,
               date = ''8 April 2021'', url = ''NC'', content = []\<rparr>), [])"
  by (simp add: extract_info_def card_text_date_def index_py_def split1_def Let_def)

lemma extract_info_card_bare:
  "extract_info env0 ''ThreadPoolExecutor-0_0'' 2 ''Job 2'' card_bare =
     (Inr (2, \<lparr>title = ''Job 2'', company = ''NC'',
               location = \<lparr>ville = ''NC'', region = ''--''\<rparr>,
               date = ''NC'', url = ''NC'', content = []\<rparr>), [])"
  by (simp add: extract_info_def card_bare_def index_py_def split1_def Let_def)

theorem extract_info_date_witness:
  "date \<lparr>title = ''Senior Python Developer'', company = ''Payne, Roberts and Davis'',
         location = \<lparr>ville = ''Stewartbury'', region = '' AA''\<rparr>,
         date = ''2021-04-08'',
         url = ''https://realpython.github.io/fake-jobs/jobs/a.html'',
         content = ''Prepare manuscript.''\<rparr> = ''2021-04-08'' \<and>
   date \<lparr>title = ''Product manager'', company = ''NC'',
         location = \<lparr>ville = ''NC'', region = ''--''\<rparr>,
         date = ''8 April 2021'', url = ''NC'', content = []\<rparr> = ''8 April 2021'' \<and>
   date \<lparr>title = ''Job 2'', company = ''NC'',
         location = \<lparr>ville = ''NC'', region = ''--''\<rparr>,
         date = ''NC'', url = ''NC'', content = []\<rparr> = ''NC''"
proof -
  have t1: "time_elem card_full = Some \<lparr>datetime = Some ''2021-04-08'', time_text = ''2021-04-08''\<rparr>"
    by (simp add: card_full_def)
  have t2: "time_elem card_text_date = Some \<lparr>datetime = None, time_text = ''8 April 2021''\<rparr>"
    by (simp add: card_text_date_def)
  have t3: "time_elem card_bare = None"
    by (simp add: card_bare_def)
  have r1: "fst (extract_info env0 ''ThreadPoolExecutor-0_0'' 0 ''Senior Python Developer'' card_full) =
     Inr (0, \<lparr>title = ''Senior Python Developer'', company = ''Payne, Roberts and Davis'',
               location = \<lparr>ville = ''Stewartbury'', region = '' AA''\<rparr>,
               date = ''2021-04-08'',
               url = ''https://realpython.github.io/fake-jobs/jobs/a.html'',
               content = ''Prepare manuscript.''\<rparr>)"
    by (simp add: extract_info_card_full)
  have r2: "fst (extract_info env0 ''ThreadPoolExecutor-0_1'' 1 ''Product manager'' card_text_date) =
     Inr (1, \<lparr>title = ''Product manager'', company = ''NC'',
               location = \<lparr>ville = ''NC'', region = ''--''\<rparr>,
               date = ''8 April 2021'', url = ''NC'', content = []\<rparr>)"
    using extract_info_card_text_date by simp
  have r3: "fst (extract_info env0 ''ThreadPoolExecutor-0_0'' 2 ''Job 2'' card_bare) =
     Inr (2, \<lparr>title = ''Job 2'', company = ''NC'',
               location = \<lparr>ville = ''NC'', region = ''--''\<rparr>,
               date = ''NC'', url = ''NC'', content = []\<rparr>)"
    by (simp add: extract_info_card_bare)
  show ?thesis
    using extract_info_date [OF r1] extract_info_date [OF r2] extract_info_date [OF r3] t1 t2 t3
    by simp
qed

text \<open>
  C5 as stated fails: the time node of the card carries a \<^verbatim>\<open>datetime\<close> attribute,
  with the empty value; the date of the Record is the text of the node, not the
  value of the attribute.
\<close>

theorem extract_info_empty_datetime_counterexample:
  "time_elem card_empty_datetime = Some \<lparr>datetime = Some [], time_text = ''8 April 2021''\<rparr> \<and>
   extract_info env0 ''ThreadPoolExecutor-0_0'' 0 ''Fitness centre manager'' card_empty_datetime =
     (Inr (0, \<lparr>title = ''Fitness centre manager'', company = ''NC'',
               location = \<lparr>ville = ''NC'', region = ''--''\<rparr>,
               date = ''8 April 2021'', url = ''NC'', content = []\<rparr>), [])"
  by (simp add: extract_info_def card_empty_datetime_def index_py_def split1_def Let_def)

section \<open>Persistence Layer: results\<close>

lemma map_of_upsert: "map_of (upsert k v xs) = (map_of xs)(k \<mapsto> v)"
  by (induction xs) auto

lemma keys_upsert: "fst ` set (upsert k v xs) = insert k (fst ` set xs)"
  by (induction xs) force+

lemma length_upsert_mem: "k \<in> fst ` set xs \<Longrightarrow> map fst (upsert k v xs) = map fst xs"
  by (induction xs) force+

lemma select_id_append:
  "select_id v (rows @ ys) =
     (case select_id v rows of None \<Rightarrow> select_id v ys | Some a \<Rightarrow> Some a)"
  by (induction rows) (auto simp: select_id_def)

lemma select_id_single: "select_id v [(i, v)] = Some i"
  by (simp add: select_id_def)



lemma titles_save_item:
  "titles (save_item idx item db) =
     (case select_id (strip (title item)) (titles db) of
        Some i \<Rightarrow> titles db
      | None \<Rightarrow> titles db @ [(autoincrement (titles_seq db) (titles db), strip (title item))])"
  by (simp add: save_item_def Let_def split: option.splits prod.splits)

lemma regions_save_item:
  "regions (save_item idx item db) =
     (if region (location item) = [] then regions db
      else case select_id (region (location item)) (regions db) of
        Some i \<Rightarrow> regions db
      | None \<Rightarrow> regions db @ [(autoincrement (regions_seq db) (regions db), region (location item))])"
  by (auto simp: save_item_def Let_def split: option.splits prod.splits)

lemma jobs_save_item:
  "jobs (save_item idx item db) =
     upsert idx
       \<lparr>title_id = the (select_id (strip (title item)) (titles (save_item idx item db))),
        row_company = company item, row_ville = ville (location item),
        region_id = (if region (location item) = [] then None
                     else select_id (region (location item)) (regions (save_item idx item db))),
        row_date = date item, row_url = url item, row_content = content item\<rparr>
       (jobs db)"
  by (auto simp: save_item_def Let_def select_id_append select_id_single
      split: option.splits prod.splits)

lemma title_found_save_item:
  "select_id (strip (title item)) (titles (save_item idx item db)) \<noteq> None"
  by (auto simp: titles_save_item select_id_append select_id_single split: option.splits)

lemma region_found_save_item:
  "region (location item) \<noteq> [] \<Longrightarrow>
   select_id (region (location item)) (regions (save_item idx item db)) \<noteq> None"
  by (auto simp: regions_save_item select_id_append select_id_single split: option.splits)


lemma titles_save_item_grow: "\<exists>ys. titles (save_item idx item db) = titles db @ ys"
  by (simp add: titles_save_item split: option.splits)

lemma regions_save_item_grow: "\<exists>ys. regions (save_item idx item db) = regions db @ ys"
  by (simp add: regions_save_item split: option.splits)

lemma titles_save_sqlite_grow: "\<exists>ys. titles (save_sqlite data db) = titles db @ ys"
proof (induction data arbitrary: db)
  case Nil
  show ?case by simp
next
  case (Cons p data)
  obtain idx item where p: "p = (idx, item)" by (cases p)
  obtain ys where a: "titles (save_item idx item db) = titles db @ ys"
    using titles_save_item_grow by blast
  obtain zs where b: "titles (save_sqlite data (save_item idx item db)) =
      titles (save_item idx item db) @ zs"
    using Cons.IH by blast
  show ?case using a b p by simp
qed

lemma regions_save_sqlite_grow: "\<exists>ys. regions (save_sqlite data db) = regions db @ ys"
proof (induction data arbitrary: db)
  case Nil
  show ?case by simp
next
  case (Cons p data)
  obtain idx item where p: "p = (idx, item)" by (cases p)
  obtain ys where a: "regions (save_item idx item db) = regions db @ ys"
    using regions_save_item_grow by blast
  obtain zs where b: "regions (save_sqlite data (save_item idx item db)) =
      regions (save_item idx item db) @ zs"
    using Cons.IH by blast
  show ?case using a b p by simp
qed

lemma select_id_titles_stable:
  assumes "select_id v (titles db) = Some a"
  shows "select_id v (titles (save_sqlite data db)) = Some a"
proof -
  obtain ys where "titles (save_sqlite data db) = titles db @ ys"
    using titles_save_sqlite_grow by blast
  then show ?thesis using assms by (simp add: select_id_append)
qed

lemma select_id_regions_stable:
  assumes "select_id v (regions db) = Some a"
  shows "select_id v (regions (save_sqlite data db)) = Some a"
proof -
  obtain ys where "regions (save_sqlite data db) = regions db @ ys"
    using regions_save_sqlite_grow by blast
  then show ?thesis using assms by (simp add: select_id_append)
qed

lemma jobs_save_item_other:
  "i \<noteq> idx \<Longrightarrow> map_of (jobs (save_item idx item db)) i = map_of (jobs db) i"
  by (subst jobs_save_item) (simp add: map_of_upsert)

lemma jobs_save_sqlite_other:
  "i \<notin> fst ` set data \<Longrightarrow> map_of (jobs (save_sqlite data db)) i = map_of (jobs db) i"
proof (induction data arbitrary: db)
  case Nil
  show ?case by simp
next
  case (Cons p data)
  obtain idx item where p: "p = (idx, item)" by (cases p)
  from Cons.prems p have "i \<noteq> idx" and "i \<notin> fst ` set data" by auto
  then show ?case using Cons.IH p by (simp add: jobs_save_item_other)
qed

lemma save_sqlite_row:
  assumes "distinct (map fst data)" and "(i, r) \<in> set data"
  shows "map_of (jobs (save_sqlite data db)) i = Some (row_of r (save_sqlite data db)) \<and>
         select_id (strip (title r)) (titles (save_sqlite data db)) \<noteq> None \<and>
         (region (location r) \<noteq> [] \<longrightarrow>
            select_id (region (location r)) (regions (save_sqlite data db)) \<noteq> None)"
  using assms
proof (induction data arbitrary: db)
  case Nil
  then show ?case by simp
next
  case (Cons p data)
  obtain idx item where p: "p = (idx, item)" by (cases p)
  let ?db1 = "save_item idx item db"
  let ?db' = "save_sqlite data ?db1"
  show ?case
  proof (cases "(i, r) \<in> set data")
    case True
    from Cons.prems p have "distinct (map fst data)" by simp
    from Cons.IH [OF this True, of ?db1] show ?thesis using p by simp
  next
    case False
    with Cons.prems p have eq: "i = idx" "r = item" by auto
    from Cons.prems p have notin: "idx \<notin> fst ` set data" by auto
    obtain a where a: "select_id (strip (title item)) (titles ?db1) = Some a"
      using title_found_save_item [of item idx db] by auto
    have a': "select_id (strip (title item)) (titles ?db') = Some a"
      using select_id_titles_stable [OF a] .
    have reg: "region (location item) \<noteq> [] \<Longrightarrow>
        select_id (region (location item)) (regions ?db') =
        select_id (region (location item)) (regions ?db1) \<and>
        select_id (region (location item)) (regions ?db1) \<noteq> None"
    proof -
      assume ne: "region (location item) \<noteq> []"
      obtain b where b: "select_id (region (location item)) (regions ?db1) = Some b"
        using region_found_save_item [OF ne, of idx db] by auto
      show ?thesis using select_id_regions_stable [OF b] b by simp
    qed
    have "map_of (jobs ?db') idx = map_of (jobs ?db1) idx"
      using jobs_save_sqlite_other [OF notin] .
    also have "\<dots> = Some (row_of item ?db1)"
      by (subst jobs_save_item) (simp add: map_of_upsert row_of_def)
    also have "row_of item ?db1 = row_of item ?db'"
      using a a' reg by (auto simp: row_of_def)
    finally show ?thesis using a' reg eq p by auto
  qed
qed


lemma save_sqlite_title_found:
  "(i, r) \<in> set data \<Longrightarrow> select_id (strip (title r)) (titles (save_sqlite data db)) \<noteq> None"
proof (induction data arbitrary: db)
  case Nil
  then show ?case by simp
next
  case (Cons p data)
  obtain idx item where p: "p = (idx, item)" by (cases p)
  show ?case
  proof (cases "(i, r) \<in> set data")
    case True
    from Cons.IH [OF True] show ?thesis using p by simp
  next
    case False
    with Cons.prems p have "r = item" by auto
    then obtain a where "select_id (strip (title r)) (titles (save_item idx item db)) = Some a"
      using title_found_save_item [of item idx db] by auto
    from select_id_titles_stable [OF this] show ?thesis using p by simp
  qed
qed

lemma save_sqlite_region_found:
  "(i, r) \<in> set data \<Longrightarrow> region (location r) \<noteq> [] \<Longrightarrow>
   select_id (region (location r)) (regions (save_sqlite data db)) \<noteq> None"
proof (induction data arbitrary: db)
  case Nil
  then show ?case by simp
next
  case (Cons p data)
  obtain idx item where p: "p = (idx, item)" by (cases p)
  show ?case
  proof (cases "(i, r) \<in> set data")
    case True
    from Cons.IH [OF True Cons.prems(2)] show ?thesis using p by simp
  next
    case False
    with Cons.prems p have "r = item" by auto
    then obtain a where
      "select_id (region (location r)) (regions (save_item idx item db)) = Some a"
      using region_found_save_item [of item idx db] Cons.prems(2) by auto
    from select_id_regions_stable [OF this] show ?thesis using p by simp
  qed
qed

lemma save_sqlite_keys: "fst ` set data \<subseteq> fst ` set (jobs (save_sqlite data db))"
proof (induction data arbitrary: db)
  case Nil
  show ?case by simp
next
  case (Cons p data)
  obtain idx item where p: "p = (idx, item)" by (cases p)
  have "map_of (jobs (save_item idx item db)) idx \<noteq> None"
    by (subst jobs_save_item) (simp add: map_of_upsert)
  have in1: "idx \<in> fst ` set (jobs (save_item idx item db))"
    by (subst jobs_save_item) (simp add: keys_upsert)
  have "idx \<in> fst ` set (jobs (save_sqlite data (save_item idx item db)))"
  proof (cases "idx \<in> fst ` set data")
    case True
    then show ?thesis using Cons.IH by blast
  next
    case False
    from jobs_save_sqlite_other [OF False, of "save_item idx item db"] in1
    show ?thesis by (metis domI dom_map_of_conv_image_fst domIff)
  qed
  then show ?case using Cons.IH [of "save_item idx item db"] p by auto
qed

text \<open>A run on a database that already knows every value and every key adds no row.\<close>

lemma save_item_known:
  assumes "select_id (strip (title item)) (titles db) \<noteq> None"
    and "region (location item) \<noteq> [] \<longrightarrow> select_id (region (location item)) (regions db) \<noteq> None"
    and "idx \<in> fst ` set (jobs db)"
  shows "titles (save_item idx item db) = titles db \<and>
         regions (save_item idx item db) = regions db \<and>
         map fst (jobs (save_item idx item db)) = map fst (jobs db)"
proof -
  have t: "titles (save_item idx item db) = titles db"
    using assms(1) by (auto simp: titles_save_item split: option.splits)
  have r: "regions (save_item idx item db) = regions db"
    using assms(2) by (auto simp: regions_save_item split: option.splits)
  have j: "map fst (jobs (save_item idx item db)) = map fst (jobs db)"
    by (subst jobs_save_item) (simp add: length_upsert_mem [OF assms(3)])
  from t r j show ?thesis by simp
qed

lemma save_sqlite_known:
  assumes "\<forall>(i, r) \<in> set data. select_id (strip (title r)) (titles db) \<noteq> None \<and>
             (region (location r) \<noteq> [] \<longrightarrow> select_id (region (location r)) (regions db) \<noteq> None) \<and>
             i \<in> fst ` set (jobs db)"
  shows "titles (save_sqlite data db) = titles db \<and>
         regions (save_sqlite data db) = regions db \<and>
         map fst (jobs (save_sqlite data db)) = map fst (jobs db)"
  using assms
proof (induction data arbitrary: db)
  case Nil
  show ?case by simp
next
  case (Cons p data)
  obtain idx item where p: "p = (idx, item)" by (cases p)
  let ?db1 = "save_item idx item db"
  from Cons.prems p have h:
    "select_id (strip (title item)) (titles db) \<noteq> None"
    "region (location item) \<noteq> [] \<longrightarrow> select_id (region (location item)) (regions db) \<noteq> None"
    "idx \<in> fst ` set (jobs db)"
    by auto
  note k = save_item_known [OF h]
  have keys: "fst ` set (jobs ?db1) = fst ` set (jobs db)"
  proof -
    have "set (map fst (jobs ?db1)) = set (map fst (jobs db))" using k by simp
    then show ?thesis by simp
  qed
  have "\<forall>(i, r) \<in> set data. select_id (strip (title r)) (titles ?db1) \<noteq> None \<and>
             (region (location r) \<noteq> [] \<longrightarrow> select_id (region (location r)) (regions ?db1) \<noteq> None) \<and>
             i \<in> fst ` set (jobs ?db1)"
    using Cons.prems k keys by auto
  from Cons.IH [OF this] show ?case using k p by simp
qed

text \<open>
  C6. Running \<open>save_sqlite\<close> a second time with the same ResultSet on the database
  that the first run left changes neither the titles table nor the regions table
  (so their row counts stay the same, no value is stored twice), and the jobs table
  keeps the same ids in the same number: the rows of the ResultSet's keys are
  replaced, not added.
\<close>

theorem save_sqlite_twice:
  "titles (save_sqlite data (save_sqlite data db)) = titles (save_sqlite data db) \<and>
   regions (save_sqlite data (save_sqlite data db)) = regions (save_sqlite data db) \<and>
   map fst (jobs (save_sqlite data (save_sqlite data db))) = map fst (jobs (save_sqlite data db)) \<and>
   length (titles (save_sqlite data (save_sqlite data db))) = length (titles (save_sqlite data db)) \<and>
   length (regions (save_sqlite data (save_sqlite data db))) = length (regions (save_sqlite data db)) \<and>
   length (jobs (save_sqlite data (save_sqlite data db))) = length (jobs (save_sqlite data db))"
proof -
  let ?db1 = "save_sqlite data db"
  have "\<forall>(i, r) \<in> set data. select_id (strip (title r)) (titles ?db1) \<noteq> None \<and>
             (region (location r) \<noteq> [] \<longrightarrow> select_id (region (location r)) (regions ?db1) \<noteq> None) \<and>
             i \<in> fst ` set (jobs ?db1)"
  proof (intro ballI, clarify)
    fix i r
    assume m: "(i, r) \<in> set data"
    have a: "select_id (strip (title r)) (titles ?db1) \<noteq> None"
      using save_sqlite_title_found [OF m] .
    have b: "region (location r) \<noteq> [] \<longrightarrow>
             select_id (region (location r)) (regions ?db1) \<noteq> None"
      using save_sqlite_region_found [OF m] by blast
    have "i \<in> fst ` set data" using m by force
    then have c: "i \<in> fst ` set (jobs ?db1)"
      using save_sqlite_keys [of data db] by blast
    from a b c
    show "select_id (strip (title r)) (titles ?db1) \<noteq> None \<and>
          (region (location r) \<noteq> [] \<longrightarrow>
             select_id (region (location r)) (regions ?db1) \<noteq> None) \<and>
          i \<in> fst ` set (jobs ?db1)"
      by blast
  qed
  from save_sqlite_known [OF this]
  have k: "titles (save_sqlite data ?db1) = titles ?db1 \<and>
         regions (save_sqlite data ?db1) = regions ?db1 \<and>
         map fst (jobs (save_sqlite data ?db1)) = map fst (jobs ?db1)" .
  have "length (jobs (save_sqlite data ?db1)) = length (map fst (jobs (save_sqlite data ?db1)))"
    by simp
  also have "\<dots> = length (map fst (jobs ?db1))"
    using k by (simp del: length_map)
  finally have "length (jobs (save_sqlite data ?db1)) = length (jobs ?db1)"
    by simp
  then show ?thesis using k by simp
qed




text \<open>
  C7. After \<open>save_sqlite\<close>, the job rows of two entries of the ResultSet whose Records
  have equal titles carry equal title ids, and the rows of two entries with equal,
  non-empty region text carry equal region ids. The id of a row is the one under
  which the titles table (the regions table) holds the value: one id per value.
\<close>

theorem save_sqlite_dedup:
  assumes "distinct (map fst data)" and "(i, r1) \<in> set data" and "(j, r2) \<in> set data"
  shows "\<exists>a b. map_of (jobs (save_sqlite data db)) i = Some a \<and>
           map_of (jobs (save_sqlite data db)) j = Some b \<and>
           select_id (strip (title r1)) (titles (save_sqlite data db)) = Some (title_id a) \<and>
           (title r1 = title r2 \<longrightarrow> title_id a = title_id b) \<and>
           (region (location r1) \<noteq> [] \<longrightarrow>
              region_id a \<noteq> None \<and>
              select_id (region (location r1)) (regions (save_sqlite data db)) = region_id a) \<and>
           (region (location r1) = region (location r2) \<and> region (location r1) \<noteq> [] \<longrightarrow>
              region_id a = region_id b)"
proof -
  let ?db' = "save_sqlite data db"
  note a = save_sqlite_row [OF assms(1) assms(2), of db]
  note b = save_sqlite_row [OF assms(1) assms(3), of db]
  show ?thesis
  proof (intro exI conjI)
    show "map_of (jobs ?db') i = Some (row_of r1 ?db')" using a by simp
    show "map_of (jobs ?db') j = Some (row_of r2 ?db')" using b by simp
    show "select_id (strip (title r1)) (titles ?db') = Some (title_id (row_of r1 ?db'))"
      using a by (auto simp: row_of_def)
    show "title r1 = title r2 \<longrightarrow> title_id (row_of r1 ?db') = title_id (row_of r2 ?db')"
      by (simp add: row_of_def)
    show "region (location r1) \<noteq> [] \<longrightarrow>
            region_id (row_of r1 ?db') \<noteq> None \<and>
            select_id (region (location r1)) (regions ?db') = region_id (row_of r1 ?db')"
      using a by (simp add: row_of_def)
    show "region (location r1) = region (location r2) \<and> region (location r1) \<noteq> [] \<longrightarrow>
            region_id (row_of r1 ?db') = region_id (row_of r2 ?db')"
      by (simp add: row_of_def)
  qed
qed


lemma strip_a: "strip ''Energy engineer'' = ''Energy engineer''"
  by (simp add: strip_def isspace_def)

lemma strip_b: "strip (CHR 0xA0 # '' Energy engineer '' @ [CHR 0x85]) = ''Energy engineer''"
  by (simp add: strip_def isspace_def)

lemma save_data0:
  "save_sqlite data0 empty_db =
     \<lparr>titles = [(1, ''Energy engineer'')], titles_seq = 1,
      regions = [(1, '' AA'')], regions_seq = 1,
      jobs = [(0, \<lparr>title_id = 1, row_company = ''Vasquez-Davidson'',
                   row_ville = ''Christopherville'', region_id = Some 1,
                   row_date = ''2021-04-08'', row_url = ''NC'', row_content = []\<rparr>),
              (1, \<lparr>title_id = 1, row_company = '' Wilson Group '',
                   row_ville = ''Port Ericaburgh'', region_id = Some 1,
                   row_date = ''2021-04-08'', row_url = ''NC'', row_content = []\<rparr>),
              (2, \<lparr>title_id = 1, row_company = ''NC'', row_ville = ''Remote'',
                   region_id = None, row_date = ''NC'', row_url = ''NC'',
                   row_content = []\<rparr>)]\<rparr>"
  by (simp add: data0_def rec_a_def rec_b_def rec_c_def empty_db_def save_item_def
      select_id_def autoincrement_def strip_def isspace_def Let_def)


lemma data0_facts:
  "distinct (map fst data0)" "(0, rec_a) \<in> set data0" "(1, rec_b) \<in> set data0"
  "(2, rec_c) \<in> set data0"
  by (simp_all add: data0_def)

theorem save_sqlite_dedup_witness:
  "distinct (map fst data0) \<and> (0, rec_a) \<in> set data0 \<and> (1, rec_b) \<in> set data0 \<and>
   (2, rec_c) \<in> set data0 \<and> title rec_a = title rec_c \<and>
   region (location rec_a) = region (location rec_b) \<and> region (location rec_a) \<noteq> [] \<and>
   (\<exists>a c. map_of (jobs (save_sqlite data0 empty_db)) 0 = Some a \<and>
          map_of (jobs (save_sqlite data0 empty_db)) 2 = Some c \<and> title_id a = title_id c) \<and>
   (\<exists>a b. map_of (jobs (save_sqlite data0 empty_db)) 0 = Some a \<and>
          map_of (jobs (save_sqlite data0 empty_db)) 1 = Some b \<and>
          region_id a = region_id b \<and> region_id a \<noteq> None)"
proof -
  have t: "title rec_a = title rec_c"
    by (simp add: rec_a_def rec_c_def)
  have r: "region (location rec_a) = region (location rec_b) \<and> region (location rec_a) \<noteq> []"
    by (simp add: rec_a_def rec_b_def)
  from t save_sqlite_dedup [OF data0_facts(1) data0_facts(2) data0_facts(4), of empty_db]
  have one: "\<exists>a c. map_of (jobs (save_sqlite data0 empty_db)) 0 = Some a \<and>
          map_of (jobs (save_sqlite data0 empty_db)) 2 = Some c \<and> title_id a = title_id c"
    by blast
  from r save_sqlite_dedup [OF data0_facts(1) data0_facts(2) data0_facts(3), of empty_db]
  have two: "\<exists>a b. map_of (jobs (save_sqlite data0 empty_db)) 0 = Some a \<and>
          map_of (jobs (save_sqlite data0 empty_db)) 1 = Some b \<and>
          region_id a = region_id b \<and> region_id a \<noteq> None"
    by blast
  from data0_facts t r one two show ?thesis by blast
qed


theorem save_sqlite_twice_witness:
  "length (titles (save_sqlite data0 empty_db)) = 1 \<and>
   length (regions (save_sqlite data0 empty_db)) = 1 \<and>
   length (jobs (save_sqlite data0 empty_db)) = 3 \<and>
   length (titles (save_sqlite data0 (save_sqlite data0 empty_db))) = 1 \<and>
   length (regions (save_sqlite data0 (save_sqlite data0 empty_db))) = 1 \<and>
   length (jobs (save_sqlite data0 (save_sqlite data0 empty_db))) = 3"
  using save_sqlite_twice [of data0 empty_db] by (simp add: save_data0)

section \<open>Scrape Orchestrator: results\<close>

lemma of_char_digit_char: "d < 10 \<Longrightarrow> (of_char (digit_char d) :: nat) = 48 + d"
  by (simp add: digit_char_def)

lemma digit_val_digit_char: "d < 10 \<Longrightarrow> digit_val (digit_char d) = Some d"
  by (simp add: digit_val_def of_char_digit_char)

lemma digit_char_not_underscore: "d < 10 \<Longrightarrow> digit_char d \<noteq> CHR ''_''"
proof
  assume d: "d < 10" and eq: "digit_char d = CHR ''_''"
  have "(of_char (digit_char d) :: nat) = 95" by (simp add: eq)
  with of_char_digit_char [OF d] have "48 + d = 95" by simp
  with d show False by simp
qed

lemma str_nat_no_underscore: "CHR ''_'' \<notin> set (str_nat n)"
proof (induction n rule: str_nat.induct)
  case (1 n)
  show ?case
  proof (cases "n < 10")
    case True
    then show ?thesis
      using digit_char_not_underscore [of n] by (subst str_nat.simps) auto
  next
    case False
    have "n mod 10 < 10" by simp
    then have "digit_char (n mod 10) \<noteq> CHR ''_''" by (rule digit_char_not_underscore)
    with False "1.IH" show ?thesis by (subst str_nat.simps) auto
  qed
qed

lemma str_nat_not_empty: "str_nat n \<noteq> []"
  by (subst str_nat.simps) simp

lemma dec_nat_snoc:
  "dec_nat acc (xs @ [c]) =
     (case dec_nat acc xs of
        None \<Rightarrow> None
      | Some a \<Rightarrow> (case digit_val c of None \<Rightarrow> None | Some d \<Rightarrow> Some (10 * a + d)))"
  by (induction xs arbitrary: acc) (auto split: option.splits)

lemma dec_nat_str_nat: "dec_nat 0 (str_nat n) = Some n"
proof (induction n rule: str_nat.induct)
  case (1 n)
  show ?case
  proof (cases "n < 10")
    case True
    then show ?thesis by (subst str_nat.simps) (simp add: digit_val_digit_char)
  next
    case False
    have "dec_nat 0 (str_nat (n div 10) @ [digit_char (n mod 10)]) =
            Some (10 * (n div 10) + n mod 10)"
      using "1.IH" [OF False] by (simp add: dec_nat_snoc digit_val_digit_char)
    then show ?thesis using False by (subst str_nat.simps) simp
  qed
qed

lemma ascii_int_str_nat: "ascii_int (str_nat k) = Some (int k)"
  by (simp add: ascii_int_def str_nat_not_empty dec_nat_str_nat)

lemma int_reads_str_env0: "int_reads_str env0"
  by (simp add: int_reads_str_def env0_def ascii_int_str_nat)

lemma thread_name_underscore: "CHR ''_'' \<in> set (thread_name p k)"
  by (simp add: thread_name_def)

lemma thread_name_suffix:
  "tl (dropWhile (\<lambda>x. x \<noteq> CHR ''_'') (thread_name p k)) = str_nat k"
proof -
  have "dropWhile (\<lambda>x. x \<noteq> CHR ''_'') (str_nat p @ ''_'' @ str_nat k) = ''_'' @ str_nat k"
  proof -
    have "\<forall>x\<in>set (str_nat p). x \<noteq> CHR ''_''"
      using str_nat_no_underscore [of p] by auto
    then show ?thesis by (simp add: dropWhile_append3)
  qed
  then show ?thesis by (simp add: thread_name_def)
qed

lemma thread_name_thrd: "split1 (CHR ''_'') (thread_name p k) ! Suc 0 = str_nat k"
  by (simp add: split1_def thread_name_underscore thread_name_suffix)

lemma fetch_html_pool_thread:
  assumes "int_reads_str e"
  shows "fst (fetch_html e u (Some (thread_name p k))) =
     (case http_get e u of
        Raises \<Rightarrow> Inl RequestException
      | Response st body \<Rightarrow> if st = 200 then Inr body else Inr [])"
proof -
  have a: "thread_name p k \<noteq> []" by (simp add: thread_name_def)
  have b: "py_int e (str_nat k) = Some (int k)"
    using assms by (simp add: int_reads_str_def)
  show ?thesis
    by (simp add: fetch_html_def a b thread_name_underscore thread_name_thrd str_nat_not_empty
        Let_def split: http_outcome.splits)
qed


lemma fst_case_fetch:
  "fst (case x of (Inl err, evs) \<Rightarrow> (Inl err, evs) | (Inr h, evs) \<Rightarrow> (g h, evs)) =
     (case fst x of Inl err \<Rightarrow> Inl err | Inr h \<Rightarrow> g h)"
  by (cases x; cases "fst x") auto

lemma extract_info_fst:
  "fst (extract_info e th idx ttl crd) =
     (let links = footer_links crd in
      case (if length links > 1
            then (case links ! 1 of None \<Rightarrow> Inl KeyError | Some h \<Rightarrow> Inr (Some h))
            else Inr None) of
        Inl err \<Rightarrow> Inl err
      | Inr apply_href \<Rightarrow>
          (let company_v = (case h3_company crd of Some t \<Rightarrow> t | None \<Rightarrow> ''NC'');
               str_loc = (case p_location crd of Some t \<Rightarrow> t | None \<Rightarrow> ''NC,--'')
           in case index_py (split1 (CHR '','') str_loc) 0 of
                Inl err \<Rightarrow> Inl err
              | Inr ville_v \<Rightarrow>
                  (case index_py (split1 (CHR '','') str_loc) 1 of
                     Inl err \<Rightarrow> Inl err
                   | Inr region_v \<Rightarrow>
                       (let location_v = \<lparr>ville = ville_v, region = region_v\<rparr>;
                            date_v =
                              (case time_elem crd of
                                 None \<Rightarrow> ''NC''
                               | Some tm \<Rightarrow>
                                   (case datetime tm of
                                      None \<Rightarrow> time_text tm
                                    | Some d \<Rightarrow> if d \<noteq> [] then d else time_text tm));
                            url_v =
                              (case apply_href of
                                 None \<Rightarrow> ''NC''
                               | Some h \<Rightarrow> if h \<noteq> [] then h else ''NC'')
                        in if url_v \<noteq> ''NC'' then
                             (case fst (fetch_html e url_v (Some th)) of
                                Inl err \<Rightarrow> Inl err
                              | Inr html_detail \<Rightarrow>
                                  Inr (idx, \<lparr>title = ttl, company = company_v,
                                             location = location_v, date = date_v,
                                             url = url_v,
                                             content =
                                               (if html_detail \<noteq> [] then
                                                  (case select_content_p e html_detail of
                                                     None \<Rightarrow> []
                                                   | Some p \<Rightarrow> p)
                                                else [])\<rparr>))
                           else Inr (idx, \<lparr>title = ttl, company = company_v,
                                           location = location_v, date = date_v,
                                           url = url_v, content = []\<rparr>)))))"
  unfolding extract_info_def Let_def
  by (simp add: fst_case_fetch split: sum.splits option.splits if_splits)

lemma extract_info_thread_indep:
  assumes "int_reads_str e"
  shows "fst (extract_info e (thread_name p k) idx ttl crd) =
         fst (extract_info e (thread_name p' k') idx ttl crd)"
  by (simp only: extract_info_fst fetch_html_pool_thread [OF assms])

lemma extract_info_idx:
  "fst (extract_info e th idx ttl crd) = Inr (i, r) \<Longrightarrow> i = idx"
  by (auto simp: extract_info_fst Let_def split: sum.splits option.splits if_splits)

lemma extract_info_ok:
  assumes "int_reads_str e" and "loc_ok crd" and "href_ok crd" and "detail_fetch_ok e crd"
  shows "\<exists>r. fst (extract_info e (thread_name p k) idx ttl crd) = Inr (idx, r)"
proof -
  show ?thesis
    using assms(2-4)
    by (auto simp: extract_info_fst fetch_html_pool_thread [OF assms(1)] Let_def loc_ok_def
        href_ok_def detail_fetch_ok_def detail_url_def index_py_def split1_def
        split: sum.splits option.splits if_splits http_outcome.splits)
qed


lemma upsert_fresh: "k \<notin> fst ` set xs \<Longrightarrow> upsert k v xs = xs @ [(k, v)]"
  by (induction xs) auto

lemma collect_fresh:
  assumes "distinct order" and "set order \<inter> fst ` set acc = {}"
  shows "collect (map (\<lambda>j. Inr (j, g j)) order) acc = Inr (acc @ map (\<lambda>j. (j, g j)) order)"
  using assms
proof (induction order arbitrary: acc)
  case Nil
  show ?case by simp
next
  case (Cons j order)
  from Cons.prems have fresh: "j \<notin> fst ` set acc" by auto
  have "set order \<inter> fst ` set (acc @ [(j, g j)]) = {}"
    using Cons.prems by auto
  with Cons.IH [of "acc @ [(j, g j)]"] Cons.prems fresh show ?case
    by (simp add: upsert_fresh)
qed

lemma collect_Inr_all:
  "collect fs acc = Inr rs \<Longrightarrow> f \<in> set fs \<Longrightarrow> \<exists>p. f = Inr p"
  by (induction fs acc rule: collect.induct) auto

lemma map_of_keyed:
  "map_of (map (\<lambda>j. (j, g j)) order) i = (if i \<in> set order then Some (g i) else None)"
  by (induction order) auto

lemma length_parse_cards: "length (parse_cards e html) = length (select_cards e html)"
  by (simp add: parse_cards_def)

lemma nth_parse_cards:
  "j < length (select_cards e html) \<Longrightarrow>
   parse_cards e html ! j = (j, title_at j (select_cards e html ! j), select_cards e html ! j)"
  by (simp add: parse_cards_def title_at_def nth_enumerate_eq)

lemma scrape_jobs_returned:
  assumes "fst (fetch_html e URL (Some [])) = Inr html" and "html \<noteq> []" and "0 < workers"
    and "completes s (length (select_cards e html))"
  shows "returned (scrape_jobs e workers s) =
           collect (map (task_result e s (select_cards e html)) (completion s)) []"
proof -
  let ?cs = "select_cards e html"
  let ?outs = "map (\<lambda>(idx, ttl, crd).
                  extract_info e (thread_name (pool_no s) (worker_of s idx)) idx ttl crd)
                (parse_cards e html)"
  have nth: "\<And>j. j \<in> set (completion s) \<Longrightarrow> fst (?outs ! j) = task_result e s ?cs j"
  proof -
    fix j assume "j \<in> set (completion s)"
    then have j: "j < length ?cs" using assms(4) by (simp add: completes_def)
    then show "fst (?outs ! j) = task_result e s ?cs j"
      by (simp add: length_parse_cards nth_parse_cards task_result_def)
  qed
  have eq: "map (\<lambda>j. fst (?outs ! j)) (completion s) = map (task_result e s ?cs) (completion s)"
    by (rule map_cong [OF refl]) (rule nth)
  obtain evs where fe: "fetch_html e URL (Some []) = (Inr html, evs)"
    using assms(1) by (cases "fetch_html e URL (Some [])") auto
  show ?thesis
    using assms(2,3) by (simp add: scrape_jobs_def Let_def fe eq)
qed

lemma scrape_jobs_all_ok:
  assumes "fst (fetch_html e URL (Some [])) = Inr html" and "html \<noteq> []" and "0 < workers"
    and "completes s (length (select_cards e html))"
    and "\<And>j. j < length (select_cards e html) \<Longrightarrow>
           task_result e s (select_cards e html) j = Inr (j, g j)"
  shows "returned (scrape_jobs e workers s) = Inr (map (\<lambda>j. (j, g j)) (completion s))"
proof -
  have eq: "map (task_result e s (select_cards e html)) (completion s) =
        map (\<lambda>j. Inr (j, g j)) (completion s)"
  proof (rule map_cong [OF refl])
    fix j assume "j \<in> set (completion s)"
    then have "j < length (select_cards e html)" using assms(4) by (simp add: completes_def)
    then show "task_result e s (select_cards e html) j = Inr (j, g j)" by (rule assms(5))
  qed
  have c: "collect (map (\<lambda>j. Inr (j, g j)) (completion s)) [] =
           Inr ([] @ map (\<lambda>j. (j, g j)) (completion s))"
    using assms(4) by (intro collect_fresh) (simp_all add: completes_def)
  show ?thesis
    unfolding scrape_jobs_returned [OF assms(1-4)] eq c by simp
qed


lemma fetch_listing:
  "http_get e URL = Response 200 html \<Longrightarrow>
   fetch_html e URL (Some []) = (Inr html, [Get URL, Print (Page_fetched None (drop 19 URL))])"
  by (simp add: fetch_html_def)

lemma scrape_jobs_listing_none:
  assumes "fst (fetch_html e URL (Some [])) = Inr []"
  shows "scrape_jobs e workers s =
     \<lparr>returned = Inr [], events = snd (fetch_html e URL (Some [])) @ [Print Listing_unavailable],
      tasks = []\<rparr>"
  using assms by (cases "fetch_html e URL (Some [])") (simp add: scrape_jobs_def)

text \<open>
  When the listing fetch answers 200 and no task raises, the run returns one entry
  per card, under the keys 0 to N-1, each the Record of the card at that position.
\<close>

lemma scrape_jobs_cards:
  assumes "int_reads_str e" and "0 < workers"
    and "http_get e URL = Response 200 html"
    and "html \<noteq> [] \<or> select_cards e html = []"
    and "completes s (length (select_cards e html))"
    and "\<forall>crd \<in> set (select_cards e html). loc_ok crd \<and> href_ok crd \<and> detail_fetch_ok e crd"
  shows "\<exists>rs. returned (scrape_jobs e workers s) = Inr rs \<and>
           length rs = length (select_cards e html) \<and>
           fst ` set rs = {0..<length (select_cards e html)} \<and>
           (\<forall>i<length (select_cards e html). \<exists>r. map_of rs i = Some r \<and>
              fst (extract_info e (thread_name (pool_no s) (worker_of s i)) i
                     (title_at i (select_cards e html ! i)) (select_cards e html ! i)) = Inr (i, r))"
proof (cases "html = []")
  case True
  with assms(4) have "select_cards e html = []" by simp
  moreover have "returned (scrape_jobs e workers s) = Inr []"
    using fetch_listing [OF assms(3)] True by (simp add: scrape_jobs_listing_none)
  ultimately show ?thesis by simp
next
  case False
  let ?cs = "select_cards e html"
  let ?N = "length ?cs"
  have ok: "\<And>j. j < ?N \<Longrightarrow> \<exists>r. task_result e s ?cs j = Inr (j, r)"
  proof -
    fix j assume "j < ?N"
    then have "?cs ! j \<in> set ?cs" by simp
    with assms(6) have "loc_ok (?cs ! j) \<and> href_ok (?cs ! j) \<and> detail_fetch_ok e (?cs ! j)"
      by blast
    then show "\<exists>r. task_result e s ?cs j = Inr (j, r)"
      unfolding task_result_def using extract_info_ok [OF assms(1)] by blast
  qed
  define g where "g j = (case task_result e s ?cs j of Inr (i, r) \<Rightarrow> r)" for j
  have tr: "\<And>j. j < ?N \<Longrightarrow> task_result e s ?cs j = Inr (j, g j)"
  proof -
    fix j assume "j < ?N"
    from ok [OF this] obtain r where "task_result e s ?cs j = Inr (j, r)" by blast
    then show "task_result e s ?cs j = Inr (j, g j)" by (simp add: g_def)
  qed
  have f: "fst (fetch_html e URL (Some [])) = Inr html"
    using fetch_listing [OF assms(3)] by simp
  have ret: "returned (scrape_jobs e workers s) = Inr (map (\<lambda>j. (j, g j)) (completion s))"
    using scrape_jobs_all_ok [OF f False assms(2) assms(5)] tr by blast
  have d: "distinct (completion s)" and st: "set (completion s) = {0..<?N}"
    using assms(5) by (simp_all add: completes_def)
  have len: "length (completion s) = ?N"
    using distinct_card [OF d] st by simp
  have keys: "fst ` set (map (\<lambda>j. (j, g j)) (completion s)) = {0..<?N}"
    using st by (simp add: image_image)
  have vals: "\<forall>i<?N. \<exists>r. map_of (map (\<lambda>j. (j, g j)) (completion s)) i = Some r \<and>
      fst (extract_info e (thread_name (pool_no s) (worker_of s i)) i
             (title_at i (?cs ! i)) (?cs ! i)) = Inr (i, r)"
    using tr st by (simp add: map_of_keyed task_result_def)
  from ret len keys vals show ?thesis by simp
qed

text \<open>
  C8. When the listing fetch returns empty content, \<open>scrape_jobs\<close> returns the empty
  ResultSet (it does not raise), submits no task, and the main thread does nothing
  but the listing fetch and the diagnostic line: the Card Locator is not called and
  no other GET is issued.
\<close>

theorem scrape_jobs_listing_empty:
  assumes "fst (fetch_html e URL (Some [])) = Inr []"
  shows "returned (scrape_jobs e workers s) = Inr [] \<and>
         tasks (scrape_jobs e workers s) = [] \<and>
         (events (scrape_jobs e workers s) = [Get URL, Print Listing_unavailable] \<or>
          events (scrape_jobs e workers s) =
            [Get URL, Print (Page_fetched None (drop 19 URL)), Print Listing_unavailable])"
proof -
  have "snd (fetch_html e URL (Some [])) = [Get URL] \<or>
        snd (fetch_html e URL (Some [])) = [Get URL, Print (Page_fetched None (drop 19 URL))]"
    using assms by (auto simp: fetch_html_def split: http_outcome.splits if_splits)
  then show ?thesis by (auto simp: scrape_jobs_listing_none [OF assms])
qed

text \<open>
  C9. For a fixed environment (the same listing and detail pages), when a run with
  one pool size and one schedule returns a ResultSet, a run with any other pool size
  and schedule (any assignment of tasks to worker threads, any completion order)
  returns a ResultSet that is the same mapping from index to Record.
\<close>

theorem scrape_jobs_pool_size:
  assumes "int_reads_str e" and "0 < w1" and "0 < w2"
    and "completes s1 (card_count e)" and "completes s2 (card_count e)"
    and "returned (scrape_jobs e w1 s1) = Inr rs1"
  shows "\<exists>rs2. returned (scrape_jobs e w2 s2) = Inr rs2 \<and> map_of rs2 = map_of rs1"
proof (cases "fst (fetch_html e URL (Some []))")
  case (Inl err)
  then have "returned (scrape_jobs e w1 s1) = Inl err"
    by (cases "fetch_html e URL (Some [])") (simp add: scrape_jobs_def)
  with assms(6) show ?thesis by simp
next
  case (Inr html)
  show ?thesis
  proof (cases "html = []")
    case True
    with Inr have "fst (fetch_html e URL (Some [])) = Inr []" by simp
    then have "\<And>w s. returned (scrape_jobs e w s) = Inr []"
      by (simp add: scrape_jobs_listing_none)
    with assms(6) show ?thesis by simp
  next
    case False
    let ?cs = "select_cards e html"
    let ?N = "length ?cs"
    have n: "card_count e = ?N" using Inr by (simp add: card_count_def listing_def)
    have c1: "completes s1 ?N" and c2: "completes s2 ?N" using assms(4,5) n by simp_all
    have r1: "collect (map (task_result e s1 ?cs) (completion s1)) [] = Inr rs1"
      using scrape_jobs_returned [OF Inr False assms(2) c1] assms(6) by simp
    have ok: "\<And>j. j < ?N \<Longrightarrow> \<exists>r. task_result e s1 ?cs j = Inr (j, r)"
    proof -
      fix j assume "j < ?N"
      then have "task_result e s1 ?cs j \<in> set (map (task_result e s1 ?cs) (completion s1))"
        using c1 by (simp add: completes_def)
      from collect_Inr_all [OF r1 this] obtain i r where p: "task_result e s1 ?cs j = Inr (i, r)"
        by auto
      then have "i = j" unfolding task_result_def by (rule extract_info_idx)
      with p show "\<exists>r. task_result e s1 ?cs j = Inr (j, r)" by simp
    qed
    define g where "g j = (case task_result e s1 ?cs j of Inr (i, r) \<Rightarrow> r)" for j
    have t1: "\<And>j. j < ?N \<Longrightarrow> task_result e s1 ?cs j = Inr (j, g j)"
    proof -
      fix j assume "j < ?N"
      from ok [OF this] obtain r where "task_result e s1 ?cs j = Inr (j, r)" by blast
      then show "task_result e s1 ?cs j = Inr (j, g j)" by (simp add: g_def)
    qed
    have same: "\<And>j. task_result e s2 ?cs j = task_result e s1 ?cs j"
      unfolding task_result_def by (rule extract_info_thread_indep [OF assms(1)])
    have t2: "\<And>j. j < ?N \<Longrightarrow> task_result e s2 ?cs j = Inr (j, g j)"
      using t1 same by simp
    have a: "returned (scrape_jobs e w1 s1) = Inr (map (\<lambda>j. (j, g j)) (completion s1))"
      using scrape_jobs_all_ok [OF Inr False assms(2) c1] t1 by blast
    have b: "returned (scrape_jobs e w2 s2) = Inr (map (\<lambda>j. (j, g j)) (completion s2))"
      using scrape_jobs_all_ok [OF Inr False assms(3) c2] t2 by blast
    have "set (completion s1) = set (completion s2)"
      using c1 c2 by (simp add: completes_def)
    then have "map_of (map (\<lambda>j. (j, g j)) (completion s2)) =
               map_of (map (\<lambda>j. (j, g j)) (completion s1))"
      by (simp add: fun_eq_iff map_of_keyed)
    with a b assms(6) show ?thesis by simp
  qed
qed


lemma env0_listing:
  "http_get env0 URL = Response 200 ''<listing>''"
  "select_cards env0 ''<listing>'' = [card_full, card_bare, card_text_date]"
  by (simp_all add: env0_def web0_def URL_def)

lemma env0_cards_ok:
  "\<forall>crd \<in> set (select_cards env0 ''<listing>''). loc_ok crd \<and> href_ok crd \<and> detail_fetch_ok env0 crd"
  by (simp add: env0_listing loc_ok_def href_ok_def detail_fetch_ok_def detail_url_def
      card_full_def card_bare_def card_text_date_def env0_def web0_def)

lemma completes_sched: "completes sched1 3" "completes sched8 3" "completes sched_one 1"
  by (auto simp: completes_def sched1_def sched8_def sched_one_def)

lemma scrape_jobs_task_fault:
  assumes "fst (fetch_html e URL (Some [])) = Inr html" and "html \<noteq> []" and "0 < workers"
    and "completes s (length (select_cards e html))"
    and "j < length (select_cards e html)"
    and "task_result e s (select_cards e html) j = Inl err"
  shows "\<exists>err'. returned (scrape_jobs e workers s) = Inl err'"
proof (cases "returned (scrape_jobs e workers s)")
  case (Inl err')
  then show ?thesis by blast
next
  case (Inr rs)
  then have c: "collect (map (task_result e s (select_cards e html)) (completion s)) [] = Inr rs"
    using scrape_jobs_returned [OF assms(1-4)] by simp
  have "task_result e s (select_cards e html) j \<in>
          set (map (task_result e s (select_cards e html)) (completion s))"
    using assms(4,5) by (simp add: completes_def)
  from collect_Inr_all [OF c this] assms(6) show ?thesis by simp
qed

text \<open>
  C1 (the code at the failing input). The listing fetch answers 200 and the Card
  Locator finds one card; the card has no footer link, so there is no detail fetch
  that could fail. Its location text, \<open>Remote\<close>, has no comma: the task raises
  IndexError (the defect of C3), \<^verbatim>\<open>future.result()\<close> re-raises it, and
  \<open>scrape_jobs\<close> raises instead of returning a ResultSet with the key 0.
\<close>

theorem scrape_jobs_no_comma_raises:
  "http_get env_remote URL = Response 200 ''<listing>'' \<and>
   select_cards env_remote ''<listing>'' = [card_remote] \<and>
   detail_url card_remote = None \<and> completes sched_one 1 \<and>
   returned (scrape_jobs env_remote 1 sched_one) = Inl IndexError"
proof -
  have l: "http_get env_remote URL = Response 200 ''<listing>''"
    by (simp add: env_remote_def env0_def web0_def URL_def)
  have cs: "select_cards env_remote ''<listing>'' = [card_remote]"
    by (simp add: env_remote_def env0_def)
  have d: "detail_url card_remote = None"
    by (simp add: detail_url_def card_remote_def)
  have f: "fst (fetch_html env_remote URL (Some [])) = Inr ''<listing>''"
    using fetch_listing [OF l] by simp
  have c: "completes sched_one (length (select_cards env_remote ''<listing>''))"
    using completes_sched(3) cs by simp
  have t: "task_result env_remote sched_one [card_remote] 0 = Inl IndexError"
    by (simp add: task_result_def extract_info_fst card_remote_def index_py_def split1_def)
  have "returned (scrape_jobs env_remote 1 sched_one) = Inl IndexError"
    using scrape_jobs_returned [OF f _ _ c, of 1] t by (simp add: cs sched_one_def)
  with l cs d completes_sched(3) show ?thesis by blast
qed

theorem scrape_jobs_listing_empty_witness:
  "fst (fetch_html env_down URL (Some [])) = Inr [] \<and>
   returned (scrape_jobs env_down 5 sched1) = Inr [] \<and>
   tasks (scrape_jobs env_down 5 sched1) = [] \<and>
   (events (scrape_jobs env_down 5 sched1) = [Get URL, Print Listing_unavailable] \<or>
    events (scrape_jobs env_down 5 sched1) =
      [Get URL, Print (Page_fetched None (drop 19 URL)), Print Listing_unavailable])"
proof -
  have f: "fst (fetch_html env_down URL (Some [])) = Inr []"
    by (simp add: fetch_html_def env_down_def)
  from f scrape_jobs_listing_empty [OF f, of 5 sched1] show ?thesis by blast
qed

theorem scrape_jobs_pool_size_witness:
  "completes sched1 (card_count env0) \<and> completes sched8 (card_count env0) \<and>
   (\<exists>rs1 rs2. returned (scrape_jobs env0 1 sched1) = Inr rs1 \<and>
              returned (scrape_jobs env0 8 sched8) = Inr rs2 \<and> map_of rs2 = map_of rs1)"
proof -
  have n: "card_count env0 = 3"
    using fetch_listing [OF env0_listing(1)] by (simp add: card_count_def listing_def env0_listing)
  have c1: "completes sched1 (card_count env0)" and c8: "completes sched8 (card_count env0)"
    using completes_sched n by simp_all
  have n3: "length (select_cards env0 ''<listing>'') = 3"
    by (simp add: env0_listing)
  have c: "completes sched1 (length (select_cards env0 ''<listing>''))"
    unfolding n3 by (rule completes_sched(1))
  have h: "''<listing>'' \<noteq> [] \<or> select_cards env0 ''<listing>'' = []"
    by simp
  have w: "(0::int) < 1" "(0::int) < 8" by simp_all
  from scrape_jobs_cards [OF int_reads_str_env0 w(1) env0_listing(1) h c env0_cards_ok]
  obtain rs1 where r1: "returned (scrape_jobs env0 1 sched1) = Inr rs1" by blast
  from scrape_jobs_pool_size [OF int_reads_str_env0 w c1 c8 r1] r1 c1 c8
  show ?thesis by blast
qed

end
